theory Spec2Isabelle
  imports Complex_Main "HOL-Library.Multiset"
begin

section \<open>NetScan: TCP connect probes, port scheduler and host sweeper\<close>

text \<open>
  A shallow embedding of the networking core of \<^verbatim>\<open>netscan.py\<close>: \<^verbatim>\<open>NetScan.scan_port\<close>,
  \<^verbatim>\<open>NetScan.scan_ports\<close> and \<^verbatim>\<open>NetScan.scan_network\<close> with its inner \<^verbatim>\<open>check_host\<close>.
  The calls into Python's \<^verbatim>\<open>socket\<close> module are modelled over an explicit network
  environment (what the outside world answers) and an explicit socket table (what the
  process holds); an exception is a value of type \<open>exc\<close>, and a call that can raise
  returns \<open>exc + 'a\<close> with \<open>Inl\<close> for the exception.
\<close>

subsection \<open>Exceptions\<close>

text \<open>
  The exception classes that occur: \<^verbatim>\<open>socket.gaierror\<close> (a subclass of \<^verbatim>\<open>OSError\<close>),
  \<^verbatim>\<open>OSError\<close> itself (\<^verbatim>\<open>socket.error\<close> is an alias of it), \<^verbatim>\<open>ValueError\<close>,
  \<^verbatim>\<open>OverflowError\<close> and \<^verbatim>\<open>IndexError\<close>, all below \<^verbatim>\<open>Exception\<close>; and
  \<^verbatim>\<open>KeyboardInterrupt\<close>, which is a \<^verbatim>\<open>BaseException\<close> but not an \<^verbatim>\<open>Exception\<close>, so that
  a handler \<^verbatim>\<open>except Exception\<close> differs from a bare \<^verbatim>\<open>except\<close>.
\<close>

datatype exc = GaiError | OSError | ValueError | OverflowError | IndexError | KeyboardInterrupt

fun is_gaierror :: "exc \<Rightarrow> bool" where
  "is_gaierror GaiError = True"
| "is_gaierror _ = False"

fun is_socket_error :: "exc \<Rightarrow> bool" where
  "is_socket_error GaiError = True"
| "is_socket_error OSError = True"
| "is_socket_error _ = False"

fun is_Exception :: "exc \<Rightarrow> bool" where
  "is_Exception KeyboardInterrupt = False"
| "is_Exception _ = True"

subsection \<open>The network environment and the socket table\<close>

text \<open>
  The environment is what the code cannot decide: whether the process may create sockets
  at all, whether a host name resolves, and the \<^verbatim>\<open>errno\<close> the C-level \<^verbatim>\<open>connect\<close> gives
  (0 when the connection is established). That \<^verbatim>\<open>errno\<close> may depend on the connection
  attempts already made on the same socket (the first argument), on host and port, and on
  the socket's timeout (\<open>None\<close> for a blocking socket).
\<close>

record net_env =
  sockets_denied :: bool
  resolves :: "string \<Rightarrow> bool"
  connect_errno :: "(string \<times> int) list \<Rightarrow> string \<Rightarrow> int \<Rightarrow> real option \<Rightarrow> int"

text \<open>
  A socket object: its descriptor, the timeout set on it, and the connection attempts made
  on it so far.
\<close>

record sock =
  fd :: nat
  timeout_of :: "real option"
  tried :: "(string \<times> int) list"

text \<open>
  The socket table of the process: the next free descriptor, the descriptors that are open
  (created and not closed), and the log of every connection attempt that reached the
  network, in the order made.
\<close>

record net_state =
  next_fd :: nat
  open_socks :: "nat list"
  attempts :: "(string \<times> int) list"

text \<open>\<^verbatim>\<open>socket.socket(AF_INET, SOCK_STREAM)\<close>: a fresh open socket, or \<^verbatim>\<open>OSError\<close>.\<close>

definition socket_new :: "net_env \<Rightarrow> net_state \<Rightarrow> (exc + sock) \<times> net_state" where
  "socket_new env s =
     (if sockets_denied env then (Inl OSError, s)
      else (Inr \<lparr>fd = next_fd s, timeout_of = None, tried = []\<rparr>,
            s\<lparr>next_fd := Suc (next_fd s), open_socks := next_fd s # open_socks s\<rparr>))"

text \<open>
  \<^verbatim>\<open>sock.settimeout(t)\<close>: a negative value raises \<^verbatim>\<open>ValueError\<close>; zero makes the socket
  non-blocking. The timeout is a Python float, modelled as a real number: only its sign
  is inspected here.
\<close>

definition settimeout :: "sock \<Rightarrow> real \<Rightarrow> exc + sock" where
  "settimeout sk t = (if t < 0 then Inl ValueError else Inr (sk\<lparr>timeout_of := Some t\<rparr>))"

text \<open>
  \<^verbatim>\<open>sock.connect_ex((host, port))\<close>. The address is checked before the network is touched:
  a port that does not fit a C \<^verbatim>\<open>int\<close> raises \<^verbatim>\<open>OverflowError\<close>, a host that does not
  resolve raises \<^verbatim>\<open>socket.gaierror\<close>, a port outside 0..65535 raises \<^verbatim>\<open>OverflowError\<close>.
  Otherwise the connection is attempted and its \<^verbatim>\<open>errno\<close> is returned, never raised.
\<close>

definition connect_ex ::
  "net_env \<Rightarrow> sock \<Rightarrow> string \<Rightarrow> int \<Rightarrow> net_state \<Rightarrow> (exc + int \<times> sock) \<times> net_state" where
  "connect_ex env sk host port s =
     (if port < - (2 ^ 31) \<or> 2 ^ 31 \<le> port then (Inl OverflowError, s)
      else if \<not> resolves env host then (Inl GaiError, s)
      else if port < 0 \<or> 65535 < port then (Inl OverflowError, s)
      else (Inr (connect_errno env (tried sk) host port (timeout_of sk),
                 sk\<lparr>tried := tried sk @ [(host, port)]\<rparr>),
            s\<lparr>attempts := attempts s @ [(host, port)]\<rparr>))"

text \<open>\<^verbatim>\<open>sock.close()\<close>: the descriptor leaves the table of open sockets.\<close>

definition close :: "sock \<Rightarrow> net_state \<Rightarrow> net_state" where
  "close sk s = s\<lparr>open_socks := removeAll (fd sk) (open_socks s)\<rparr>"

subsection \<open>The probe: \<^verbatim>\<open>scan_port\<close>\<close>

text \<open>
  The three handlers of \<^verbatim>\<open>scan_port\<close>, tried in the order written; an exception that
  matches none of them propagates.
\<close>

definition scan_port_except :: "exc \<Rightarrow> exc + bool" where
  "scan_port_except e =
     (if is_gaierror e then Inr False
      else if is_socket_error e then Inr False
      else if is_Exception e then Inr False
      else Inl e)"

text \<open>
  The \<^verbatim>\<open>try\<close> block: create the socket, set the timeout, connect, close, and return
  whether \<^verbatim>\<open>connect_ex\<close> gave 0. An exception leaves the block at the call that raised it.
\<close>

definition scan_port ::
  "net_env \<Rightarrow> string \<Rightarrow> int \<Rightarrow> real \<Rightarrow> net_state \<Rightarrow> (exc + bool) \<times> net_state" where
  "scan_port env host port timeout s =
     (case socket_new env s of
        (Inl e, s1) \<Rightarrow> (scan_port_except e, s1)
      | (Inr sk, s1) \<Rightarrow>
          (case settimeout sk timeout of
             Inl e \<Rightarrow> (scan_port_except e, s1)
           | Inr sk1 \<Rightarrow>
               (case connect_ex env sk1 host port s1 of
                  (Inl e, s2) \<Rightarrow> (scan_port_except e, s2)
                | (Inr (result, sk2), s2) \<Rightarrow> (Inr (result = 0), close sk2 s2))))"

text \<open>
  What \<^verbatim>\<open>scan_port\<close> computes, in closed form (lemma \<open>scan_port_value\<close>): the socket could
  be created, the timeout was accepted, the address was accepted, and the connection
  attempt on the fresh socket gave \<^verbatim>\<open>errno\<close> 0.
\<close>

definition probe_connects :: "net_env \<Rightarrow> string \<Rightarrow> int \<Rightarrow> real \<Rightarrow> bool" where
  "probe_connects env host port timeout =
     (\<not> sockets_denied env \<and> \<not> timeout < 0 \<and> resolves env host \<and> \<not> port < 0 \<and> \<not> 65535 < port
      \<and> connect_errno env [] host port (Some timeout) = 0)"

subsection \<open>The port scheduler: \<^verbatim>\<open>scan_ports\<close>\<close>

text \<open>
  The pool runs one \<^verbatim>\<open>scan_port\<close> per element of \<^verbatim>\<open>ports\<close> (the dictionary
  \<^verbatim>\<open>future_to_port\<close> is keyed by the future, so a port listed twice is probed twice).
  \<open>run_probes\<close> runs the probes of a list of ports one after the other and pairs each port
  with what its future holds: the value \<^verbatim>\<open>scan_port\<close> returned or the exception it raised.
\<close>

fun run_probes ::
  "net_env \<Rightarrow> string \<Rightarrow> real \<Rightarrow> int list \<Rightarrow> net_state \<Rightarrow> (int \<times> (exc + bool)) list \<times> net_state" where
  "run_probes env host timeout [] s = ([], s)"
| "run_probes env host timeout (port # ports) s =
     (case scan_port env host port timeout s of
        (r, s1) \<Rightarrow>
          (case run_probes env host timeout ports s1 of
             (rs, s2) \<Rightarrow> ((port, r) # rs, s2)))"

text \<open>
  The body of the \<^verbatim>\<open>as_completed\<close> loop: \<^verbatim>\<open>results[port] = future.result()\<close>, with
  \<^verbatim>\<open>except Exception: results[port] = False\<close>.
\<close>

definition record_result :: "(int \<rightharpoonup> bool) \<Rightarrow> int \<Rightarrow> exc + bool \<Rightarrow> exc + (int \<rightharpoonup> bool)" where
  "record_result results port r =
     (case r of
        Inr b \<Rightarrow> Inr (results(port \<mapsto> b))
      | Inl e \<Rightarrow> if is_Exception e then Inr (results(port \<mapsto> False)) else Inl e)"

fun collect_results :: "(int \<times> (exc + bool)) list \<Rightarrow> (int \<rightharpoonup> bool) \<Rightarrow> exc + (int \<rightharpoonup> bool)" where
  "collect_results [] results = Inr results"
| "collect_results ((port, r) # futures) results =
     (case record_result results port r of
        Inl e \<Rightarrow> Inl e
      | Inr results' \<Rightarrow> collect_results futures results')"

text \<open>
  \<^verbatim>\<open>scan_ports\<close>. \<^verbatim>\<open>ThreadPoolExecutor(max_workers=threads)\<close> raises \<^verbatim>\<open>ValueError\<close> when
  \<^verbatim>\<open>threads <= 0\<close>, before anything is submitted, and \<^verbatim>\<open>scan_ports\<close> has no handler
  around it. The order in which the futures complete is not decided by the code: it is the
  argument \<open>order\<close>, a permutation of the indices of \<^verbatim>\<open>ports\<close>, and the properties below
  hold for every such permutation. The probes' effects on the socket table are applied in
  that order; the dictionary returned does not depend on them.
\<close>

definition scan_ports ::
  "net_env \<Rightarrow> string \<Rightarrow> int list \<Rightarrow> real \<Rightarrow> int \<Rightarrow> nat list \<Rightarrow> net_state
     \<Rightarrow> (exc + (int \<rightharpoonup> bool)) \<times> net_state" where
  "scan_ports env host ports timeout threads order s =
     (if threads \<le> 0 then (Inl ValueError, s)
      else (case run_probes env host timeout (map (\<lambda>i. ports ! i) order) s of
              (futures, s1) \<Rightarrow> (collect_results futures Map.empty, s1)))"

subsection \<open>Strings: \<^verbatim>\<open>f"{prefix}.{i}"\<close>, \<^verbatim>\<open>split\<close> and \<^verbatim>\<open>int\<close>\<close>











subsection \<open>The host sweeper: \<^verbatim>\<open>scan_network\<close> and \<^verbatim>\<open>check_host\<close>\<close>












subsection \<open>Concrete environments\<close>

text \<open>
  An initial socket table, and a loopback-like network in which every name but the one
  used by the repository's test \<^verbatim>\<open>test_scan_port_invalid_host\<close> resolves, port 9 accepts
  connections on a fresh socket, and every other attempt is refused (\<^verbatim>\<open>ECONNREFUSED\<close>, 111).
\<close>

definition init_state :: net_state where
  "init_state = \<lparr>next_fd = 3, open_socks = [], attempts = []\<rparr>"

definition loopback_env :: net_env where
  "loopback_env =
     \<lparr>sockets_denied = False,
      resolves = (\<lambda>h. h \<noteq> ''definitely.invalid.host.xyz''),
      connect_errno = (\<lambda>hist h p t. if hist = [] \<and> p = 9 then 0 else 111)\<rparr>"


section \<open>Properties\<close>

lemma scan_port_value:
  "fst (scan_port env host port timeout s) = Inr (probe_connects env host port timeout)"
  by (auto simp: scan_port_def socket_new_def settimeout_def connect_ex_def scan_port_except_def
      probe_connects_def)

subsection \<open>The scheduler's bookkeeping\<close>


lemma run_probes_value:
  "fst (run_probes env host timeout ports s) =
     map (\<lambda>p. (p, Inr (probe_connects env host p timeout))) ports"
proof (induction ports arbitrary: s)
  case Nil
  show ?case by simp
next
  case (Cons p ps)
  obtain r s1 where sp: "scan_port env host p timeout s = (r, s1)"
    by (cases "scan_port env host p timeout s")
  then have r: "r = Inr (probe_connects env host p timeout)"
    using scan_port_value [of env host p timeout s] by simp
  obtain rs s2 where rp: "run_probes env host timeout ps s1 = (rs, s2)"
    by (cases "run_probes env host timeout ps s1")
  then have "rs = map (\<lambda>p. (p, Inr (probe_connects env host p timeout))) ps"
    using Cons.IH [of s1] by simp
  with sp r rp show ?case by simp
qed

lemma collect_results_values:
  "collect_results (map (\<lambda>p. (p, Inr (f p))) ports) results =
     Inr (\<lambda>q. if q \<in> set ports then Some (f q) else results q)"
proof (induction ports arbitrary: results)
  case Nil
  show ?case by simp
next
  case (Cons p ps)
  have "collect_results (map (\<lambda>p. (p, Inr (f p))) (p # ps)) results =
        collect_results (map (\<lambda>p. (p, Inr (f p))) ps) (results(p \<mapsto> f p))"
    by (simp add: record_result_def)
  also have "\<dots> = Inr (\<lambda>q. if q \<in> set ps then Some (f q) else (results(p \<mapsto> f p)) q)"
    by (rule Cons.IH)
  also have "(\<lambda>q. if q \<in> set ps then Some (f q) else (results(p \<mapsto> f p)) q) =
             (\<lambda>q. if q \<in> set (p # ps) then Some (f q) else results q)"
    by (rule ext) simp
  finally show ?case .
qed

lemma completed_mset:
  assumes "mset order = mset [0..<length xs]"
  shows "mset (map (\<lambda>i. xs ! i) order) = mset xs"
proof -
  have "mset (map (\<lambda>i. xs ! i) order) = image_mset (\<lambda>i. xs ! i) (mset order)"
    by simp
  also have "\<dots> = image_mset (\<lambda>i. xs ! i) (mset [0..<length xs])"
    using assms by simp
  also have "\<dots> = mset (map (\<lambda>i. xs ! i) [0..<length xs])"
    by simp
  also have "\<dots> = mset xs"
    by (simp add: map_nth)
  finally show ?thesis .
qed

lemma completed_set:
  assumes "mset order = mset [0..<length xs]"
  shows "set (map (\<lambda>i. xs ! i) order) = set xs"
  using completed_mset [OF assms] by (metis set_mset_mset)

subsection \<open>The probe\<close>



text \<open>
  Claim C10. \<^verbatim>\<open>scan_port\<close> is total: for every host string, every integer port and
  every timeout it returns a boolean and raises nothing; a port below 0 or above 65535
  gives \<open>False\<close>, not an error.
\<close>

theorem scan_port_total:
  "(\<exists>b. fst (scan_port env host port timeout s) = Inr b)
   \<and> (port < 0 \<or> 65535 < port \<longrightarrow> fst (scan_port env host port timeout s) = Inr False)"
  by (auto simp: scan_port_value probe_connects_def)

theorem scan_port_total_witness:
  "((-1::int) < 0 \<or> 65535 < (-1::int))
   \<and> fst (scan_port loopback_env ''127.0.0.1'' (-1) (1 / 10) init_state) = Inr False"
  using scan_port_total [of loopback_env "''127.0.0.1''" "-1" "1 / 10" init_state]
  by simp

text \<open>
  Claim C5. The socket of a probe is not closed on every way out of \<^verbatim>\<open>scan_port\<close>. When
  \<^verbatim>\<open>connect_ex\<close> raises (here: \<^verbatim>\<open>socket.gaierror\<close> for the host name of the repository's
  test \<^verbatim>\<open>test_scan_port_invalid_host\<close>), the handler returns \<open>False\<close> and
  \<^verbatim>\<open>sock.close()\<close> is skipped: descriptor 3, created by the probe, is still in the table of
  open sockets when the function has returned.
\<close>

theorem scan_port_unresolved_host_socket_left_open:
  "scan_port loopback_env ''definitely.invalid.host.xyz'' 80 (1 / 10) init_state =
     (Inr False, \<lparr>next_fd = 4, open_socks = [3], attempts = []\<rparr>)"
  by (simp add: scan_port_def socket_new_def settimeout_def connect_ex_def scan_port_except_def
      loopback_env_def init_state_def)

text \<open>
  On the way out that the code does cover, a refused connection, the same descriptor is
  closed again.
\<close>

lemma scan_port_refused_socket_closed:
  "scan_port loopback_env ''127.0.0.1'' 9999 (1 / 10) init_state =
     (Inr False, \<lparr>next_fd = 4, open_socks = [], attempts = [(''127.0.0.1'', 9999)]\<rparr>)"
  by (simp add: scan_port_def socket_new_def settimeout_def connect_ex_def scan_port_except_def
      loopback_env_def init_state_def close_def)

subsection \<open>Input errors\<close>

text \<open>
  Claim C6, as stated, fails: port 70000 is outside 0..65535, and \<^verbatim>\<open>scan_port\<close> does not
  reject it. \<^verbatim>\<open>connect_ex\<close> raises \<^verbatim>\<open>OverflowError\<close>, the handler \<^verbatim>\<open>except Exception\<close>
  turns it into the probe outcome \<open>False\<close>, and the caller sees no error.
\<close>

theorem scan_port_port_70000_not_rejected:
  "scan_port loopback_env ''127.0.0.1'' 70000 (1 / 10) init_state =
     (Inr False, \<lparr>next_fd = 4, open_socks = [3], attempts = []\<rparr>)"
  by (simp add: scan_port_def socket_new_def settimeout_def connect_ex_def scan_port_except_def
      loopback_env_def init_state_def)

lemma scan_port_no_attempt:
  assumes "port < 0 \<or> 65535 < port \<or> timeout < 0 \<or> \<not> resolves env host"
  shows "attempts (snd (scan_port env host port timeout s)) = attempts s"
  using assms
  by (auto simp: scan_port_def socket_new_def settimeout_def connect_ex_def)

lemma scan_port_zero_timeout_attempt:
  assumes "\<not> sockets_denied env" and "resolves env host" and "0 \<le> port" and "port \<le> 65535"
  shows "attempts (snd (scan_port env host port 0 s)) = attempts s @ [(host, port)]"
  using assms
  by (auto simp: scan_port_def socket_new_def settimeout_def connect_ex_def close_def)

text \<open>
  Claim C6, amended. Of the input errors, only a non-positive concurrency is rejected:
  \<^verbatim>\<open>scan_ports\<close> with \<^verbatim>\<open>threads <= 0\<close> raises \<^verbatim>\<open>ValueError\<close> and leaves the socket table
  as it was, so no probe has run. \<^verbatim>\<open>scan_port\<close> rejects nothing: for a port outside
  0..65535, a negative timeout or a host that does not resolve it returns \<open>False\<close> without
  a connection attempt, and with a timeout of zero it makes the attempt.
\<close>

theorem only_concurrency_is_rejected:
  "(threads \<le> 0 \<longrightarrow> scan_ports env host ports timeout threads order s = (Inl ValueError, s))
   \<and> (port < 0 \<or> 65535 < port \<or> timeout < 0 \<or> \<not> resolves env host \<longrightarrow>
        fst (scan_port env host port timeout s) = Inr False
        \<and> attempts (snd (scan_port env host port timeout s)) = attempts s)
   \<and> (\<not> sockets_denied env \<and> resolves env host' \<and> 0 \<le> port' \<and> port' \<le> 65535 \<longrightarrow>
        attempts (snd (scan_port env host' port' 0 s)) = attempts s @ [(host', port')])"
proof (intro conjI impI)
  assume "threads \<le> 0"
  then show "scan_ports env host ports timeout threads order s = (Inl ValueError, s)"
    by (simp add: scan_ports_def)
next
  assume bad: "port < 0 \<or> 65535 < port \<or> timeout < 0 \<or> \<not> resolves env host"
  then show "fst (scan_port env host port timeout s) = Inr False"
    by (auto simp: scan_port_value probe_connects_def)
  from bad show "attempts (snd (scan_port env host port timeout s)) = attempts s"
    by (rule scan_port_no_attempt)
next
  assume "\<not> sockets_denied env \<and> resolves env host' \<and> 0 \<le> port' \<and> port' \<le> 65535"
  then show "attempts (snd (scan_port env host' port' 0 s)) = attempts s @ [(host', port')]"
    by (simp add: scan_port_zero_timeout_attempt)
qed

theorem only_concurrency_is_rejected_witness:
  "(0::int) \<le> 0
   \<and> scan_ports loopback_env ''127.0.0.1'' [9, 9999] (1 / 10) 0 [0, 1] init_state
       = (Inl ValueError, init_state)
   \<and> (65535::int) < 65536
   \<and> fst (scan_port loopback_env ''127.0.0.1'' 65536 (1 / 10) init_state) = Inr False
   \<and> attempts (snd (scan_port loopback_env ''127.0.0.1'' 65536 (1 / 10) init_state))
       = attempts init_state
   \<and> \<not> sockets_denied loopback_env \<and> resolves loopback_env ''127.0.0.1''
   \<and> (0::int) \<le> 9 \<and> (9::int) \<le> 65535
   \<and> attempts (snd (scan_port loopback_env ''127.0.0.1'' 9 0 init_state))
       = attempts init_state @ [(''127.0.0.1'', 9)]"
  using only_concurrency_is_rejected [of 0 loopback_env "''127.0.0.1''" "[9, 9999]" "1 / 10"
      "[0, 1]" init_state 65536 "''127.0.0.1''" 9]
  by (simp add: loopback_env_def)

subsection \<open>The port scheduler\<close>

lemma scan_ports_value:
  assumes "0 < threads" and "mset order = mset [0..<length ports]"
  shows "fst (scan_ports env host ports timeout threads order s) =
           Inr (\<lambda>q. if q \<in> set ports then Some (probe_connects env host q timeout) else None)"
proof -
  let ?completed = "map (\<lambda>i. ports ! i) order"
  obtain futures s1 where rp: "run_probes env host timeout ?completed s = (futures, s1)"
    by (cases "run_probes env host timeout ?completed s")
  then have "futures = map (\<lambda>p. (p, Inr (probe_connects env host p timeout))) ?completed"
    using run_probes_value [of env host timeout ?completed s] by simp
  then have "collect_results futures Map.empty =
             Inr (\<lambda>q. if q \<in> set ?completed
                      then Some (probe_connects env host q timeout) else None)"
    by (simp only: collect_results_values)
  then have "collect_results futures Map.empty =
             Inr (\<lambda>q. if q \<in> set ports then Some (probe_connects env host q timeout) else None)"
    by (simp only: completed_set [OF assms(2)])
  with rp assms(1) show ?thesis
    by (simp add: scan_ports_def)
qed

text \<open>
  Claim C2. For a positive thread count and every completion order of the futures,
  \<^verbatim>\<open>scan_ports\<close> returns a dictionary whose keys are exactly the ports requested: as many
  entries as there are distinct ports in the list, none missing and none added.
\<close>

theorem scan_ports_one_entry_per_port:
  assumes "0 < threads" and "mset order = mset [0..<length ports]"
  shows "\<exists>results. fst (scan_ports env host ports timeout threads order s) = Inr results
           \<and> dom results = set ports
           \<and> card (dom results) = length (remdups ports)"
proof -
  let ?r = "\<lambda>q. if q \<in> set ports then Some (probe_connects env host q timeout) else None"
  have "dom ?r = set ports"
    by (auto simp: dom_def)
  moreover have "card (set ports) = length (remdups ports)"
    by (simp add: length_remdups_card_conv)
  ultimately show ?thesis
    using scan_ports_value [OF assms] by simp
qed

theorem scan_ports_one_entry_per_port_witness:
  "(0::int) < 2 \<and> mset [2, 0, 1] = mset [0..<length [9, 9999, 9 :: int]]
   \<and> (\<exists>results. fst (scan_ports loopback_env ''127.0.0.1'' [9, 9999, 9] (1 / 10) 2 [2, 0, 1]
                       init_state) = Inr results
        \<and> dom results = set [9, 9999, 9]
        \<and> card (dom results) = length (remdups [9, 9999, 9 :: int]))"
proof -
  have h: "mset [2, 0, 1] = mset [0..<length [9, 9999, 9 :: int]]"
    by code_simp
  show ?thesis
    using h scan_ports_one_entry_per_port [of 2 "[2, 0, 1]" "[9, 9999, 9]" loopback_env
        "''127.0.0.1''" "1 / 10" init_state]
    by simp
qed

text \<open>
  Claim C3. For a positive thread count and every completion order, the dictionary of
  \<^verbatim>\<open>scan_ports\<close> maps each requested port to what a single \<^verbatim>\<open>scan_port\<close> on that port
  returns, from any socket table; and a future that holds an exception below
  \<^verbatim>\<open>Exception\<close> is recorded as \<open>False\<close>, the loop going on with the futures left.
\<close>

theorem scan_ports_pointwise_scan_port:
  assumes "0 < threads" and "mset order = mset [0..<length ports]" and "p \<in> set ports"
    and "is_Exception e"
  shows "(\<exists>results b. fst (scan_ports env host ports timeout threads order s) = Inr results
            \<and> results p = Some b
            \<and> fst (scan_port env host p timeout s0) = Inr b)
         \<and> collect_results ((q, Inl e) # futures) m = collect_results futures (m(q \<mapsto> False))"
proof
  show "\<exists>results b. fst (scan_ports env host ports timeout threads order s) = Inr results
            \<and> results p = Some b
            \<and> fst (scan_port env host p timeout s0) = Inr b"
    using scan_ports_value [OF assms(1,2)] assms(3) by (simp add: scan_port_value)
  show "collect_results ((q, Inl e) # futures) m = collect_results futures (m(q \<mapsto> False))"
    using assms(4) by (simp add: record_result_def)
qed

theorem scan_ports_pointwise_scan_port_witness:
  "(0::int) < 2 \<and> mset [1, 0] = mset [0..<length [9, 9999 :: int]] \<and> (9999::int) \<in> set [9, 9999]
   \<and> is_Exception OSError
   \<and> (\<exists>results b. fst (scan_ports loopback_env ''127.0.0.1'' [9, 9999] (1 / 10) 2 [1, 0]
                         init_state) = Inr results
        \<and> results 9999 = Some b
        \<and> fst (scan_port loopback_env ''127.0.0.1'' 9999 (1 / 10) init_state) = Inr b)
   \<and> collect_results [(9, Inl OSError)] Map.empty = collect_results [] [9 \<mapsto> False]"
proof -
  have h: "mset [1, 0] = mset [0..<length [9, 9999 :: int]]"
    by code_simp
  show ?thesis
    using h scan_ports_pointwise_scan_port [of 2 "[1, 0]" "[9, 9999]" 9999 OSError loopback_env
        "''127.0.0.1''" "1 / 10" init_state init_state 9 "[]" Map.empty]
    by simp
qed

subsection \<open>Addresses and their sort key\<close>



















subsection \<open>The host sweeper\<close>
























end
